theory Spec2Isabelle
  imports Complex_Main "HOL-Library.Word"
begin

section \<open>JavaScript values used by the library\<close>

subsection \<open>Strings\<close>

text \<open>
  A JavaScript string is a sequence of UTF-16 code units. String literals of the source
  are ASCII; \<open>js\<close> turns an ASCII literal into its code units.
\<close>

type_synonym code_unit = "16 word"
type_synonym jsstring = "code_unit list"

definition js_char :: "char \<Rightarrow> code_unit" where
  "js_char c = of_nat (of_char c)"

definition js :: "string \<Rightarrow> jsstring" where
  "js s = map js_char s"

text \<open>
  \<open>a || b\<close> on an optional string: \<open>undefined\<close> and the empty string are falsy.
\<close>

definition or_string :: "jsstring option \<Rightarrow> jsstring \<Rightarrow> jsstring" where
  "or_string a b = (case a of None \<Rightarrow> b | Some s \<Rightarrow> if s = [] then b else s)"

text \<open>
  Interpolation \<open>${x}\<close> in a template literal: \<open>undefined\<close> prints as the word
  \<open>undefined\<close>, a string as itself.
\<close>

definition interpolate :: "jsstring option \<Rightarrow> jsstring" where
  "interpolate a = (case a of None \<Rightarrow> js ''undefined'' | Some s \<Rightarrow> s)"

subsection \<open>Numbers\<close>

text \<open>
  The source only passes numbers on and tests them for truthiness or equality; it does no
  arithmetic. A number is one of the special values or a finite value, the finite values
  taken as rationals (every finite double is one), the literal \<open>0.7\<close> as \<open>7/10\<close>.
\<close>

datatype jsnumber = NaN | PosInfinity | NegInfinity | NegZero | Fin rat

fun truthy_number :: "jsnumber \<Rightarrow> bool" where
  "truthy_number NaN = False"
| "truthy_number NegZero = False"
| "truthy_number (Fin q) = (q \<noteq> 0)"
| "truthy_number PosInfinity = True"
| "truthy_number NegInfinity = True"

text \<open>\<open>a || b\<close> and \<open>a ?? b\<close> on an optional number.\<close>

definition or_number :: "jsnumber option \<Rightarrow> jsnumber \<Rightarrow> jsnumber" where
  "or_number a b = (case a of None \<Rightarrow> b | Some n \<Rightarrow> if truthy_number n then n else b)"

definition nullish_number :: "jsnumber option \<Rightarrow> jsnumber \<Rightarrow> jsnumber" where
  "nullish_number a b = (case a of None \<Rightarrow> b | Some n \<Rightarrow> n)"

subsection \<open>Thrown values\<close>

text \<open>
  What a \<open>catch\<close> clause of the source looks at in a thrown value: whether it is an
  instance of \<open>Error\<close>, its \<open>name\<close>, its \<open>message\<close> and \<open>response?.status\<close>
  (\<open>None\<close> is \<open>undefined\<close>). The value's own \<open>status\<close> property is kept as
  well: no \<open>catch\<close> clause of the source reads it, but it is where the errors of the
  \<open>openai\<close> client carry the HTTP status.
\<close>

record js_error =
  instanceof_Error :: bool
  name :: jsstring
  message :: "jsstring option"
  response_status :: "jsnumber option"
  status :: "jsnumber option"

definition Error :: "jsstring \<Rightarrow> js_error" where
  "Error msg = \<lparr>instanceof_Error = True, name = js ''Error'', message = Some msg,
     response_status = None, status = None\<rparr>"

text \<open>exceptions.ts: \<open>super(message); this.name = 'AllProvidersFailedError'\<close>.\<close>

definition AllProvidersFailedError :: "jsstring \<Rightarrow> js_error" where
  "AllProvidersFailedError msg = (Error msg)\<lparr>name := js ''AllProvidersFailedError''\<rparr>"

section \<open>The provider contract (providers.ts, LLMProvider)\<close>

record gen_options =
  model :: "jsstring option"
  temperature :: "jsnumber option"
  max_tokens :: "jsnumber option"

text \<open>
  An instance of a subclass of \<open>LLMProvider\<close>, as the router sees it during one call:
  the name of its class, what \<open>isAvailable()\<close> returns, and how the promise of
  \<open>generate(prompt, options)\<close> settles (\<open>Inl\<close> rejected with the thrown value,
  \<open>Inr\<close> resolved with the text). The options object is optional (\<open>None\<close> is
  \<open>undefined\<close>) and the router hands it to the provider unchanged.
\<close>

record LLMProvider =
  constructor_name :: jsstring
  isAvailable :: bool
  generate :: "jsstring \<Rightarrow> gen_options option \<Rightarrow> js_error + jsstring"

section \<open>The router (client.ts, LLMClient)\<close>

record LLMClient =
  providers :: "LLMProvider list"

text \<open>
  What one call of \<open>LLMClient.generate\<close> does besides returning is recorded as a list of
  events, each with the position in \<open>this.providers\<close> of the loop iteration it belongs to.
\<close>

datatype action =
    IsAvailableCalled
  | GenerateCalled
  | ConsoleLog jsstring
  | ConsoleError jsstring

type_synonym event = "nat \<times> action"

text \<open>
  The \<open>for ... of\<close> loop from position \<open>i\<close> on, over the providers that remain, and
  the \<open>throw\<close> after it.
\<close>

fun generate_from ::
  "nat \<Rightarrow> LLMProvider list \<Rightarrow> jsstring \<Rightarrow> gen_options option \<Rightarrow>
     (js_error + jsstring) \<times> event list" where
  "generate_from i [] prompt options =
     (Inl (AllProvidersFailedError (js ''All LLM providers failed'')), [])"
| "generate_from i (provider # rest) prompt options =
     (if \<not> isAvailable provider then
        (case generate_from (Suc i) rest prompt options of
           (r, t) \<Rightarrow> (r, (i, IsAvailableCalled) # t))
      else
        (case generate provider prompt options of
           Inr result \<Rightarrow>
             (Inr result,
              [(i, IsAvailableCalled), (i, GenerateCalled),
               (i, ConsoleLog (js ''Successfully used '' @ constructor_name provider))])
         | Inl error \<Rightarrow>
             (let errorMessage =
                    (if instanceof_Error error then message error
                     else Some (js ''Unknown error occurred''))
              in case generate_from (Suc i) rest prompt options of
                   (r, t) \<Rightarrow>
                     (r, [(i, IsAvailableCalled), (i, GenerateCalled),
                          (i, ConsoleError (constructor_name provider @ js '' failed: ''
                                @ interpolate errorMessage))] @ t))))"

definition LLMClient_generate ::
  "LLMClient \<Rightarrow> jsstring \<Rightarrow> gen_options option \<Rightarrow> (js_error + jsstring) \<times> event list" where
  "LLMClient_generate this prompt options = generate_from 0 (providers this) prompt options"

definition addProvider :: "LLMClient \<Rightarrow> LLMProvider \<Rightarrow> LLMClient" where
  "addProvider this provider = this\<lparr>providers := providers this @ [provider]\<rparr>"

definition setProviders :: "LLMClient \<Rightarrow> LLMProvider list \<Rightarrow> LLMClient" where
  "setProviders this ps = this\<lparr>providers := ps\<rparr>"

subsection \<open>Reading a trace\<close>

text \<open>
  The positions whose provider was asked \<open>isAvailable()\<close>, those whose \<open>generate\<close>
  was called, and those whose success path (the \<open>console.log\<close> before \<open>return result\<close>)
  ran, each in the order of the trace.
\<close>

fun availability_checks :: "event list \<Rightarrow> nat list" where
  "availability_checks [] = []"
| "availability_checks ((i, IsAvailableCalled) # t) = i # availability_checks t"
| "availability_checks (_ # t) = availability_checks t"

fun generate_calls :: "event list \<Rightarrow> nat list" where
  "generate_calls [] = []"
| "generate_calls ((i, GenerateCalled) # t) = i # generate_calls t"
| "generate_calls (_ # t) = generate_calls t"

fun success_paths :: "event list \<Rightarrow> nat list" where
  "success_paths [] = []"
| "success_paths ((i, ConsoleLog _) # t) = i # success_paths t"
| "success_paths (_ # t) = success_paths t"

text \<open>A provider that is skipped or whose call is rejected, for a given request.\<close>

definition unavailable_or_fails :: "LLMProvider \<Rightarrow> jsstring \<Rightarrow> gen_options option \<Rightarrow> bool" where
  "unavailable_or_fails p prompt options =
     (if isAvailable p then isl (generate p prompt options) else True)"

definition succeeds_with ::
  "LLMProvider \<Rightarrow> jsstring \<Rightarrow> gen_options option \<Rightarrow> jsstring \<Rightarrow> bool" where
  "succeeds_with p prompt options r =
     (isAvailable p \<and> generate p prompt options = Inr r)"

section \<open>String cleaning used by the adapters\<close>

text \<open>
  The code units that \<open>\s\<close> matches and that \<open>trim()\<close> strips: the white space and
  line terminator code points of ECMAScript, all of them single code units.
\<close>

definition is_whitespace :: "code_unit \<Rightarrow> bool" where
  "is_whitespace c =
     (c = 0x09 \<or> c = 0x0A \<or> c = 0x0B \<or> c = 0x0C \<or> c = 0x0D \<or> c = 0x20 \<or> c = 0xA0
      \<or> c = 0x1680 \<or> (0x2000 \<le> c \<and> c \<le> 0x200A) \<or> c = 0x2028 \<or> c = 0x2029
      \<or> c = 0x202F \<or> c = 0x205F \<or> c = 0x3000 \<or> c = 0xFEFF)"

definition trim :: "jsstring \<Rightarrow> jsstring" where
  "trim s = rev (dropWhile is_whitespace (rev (dropWhile is_whitespace s)))"

text \<open>
  \<open>replace(/<[^>]*>/g, '')\<close>: scanning from the left, a \<open><\<close> with a \<open>>\<close> somewhere
  after it is removed together with everything up to the first such \<open>>\<close>; any other code
  unit is kept.
\<close>

function remove_tags :: "jsstring \<Rightarrow> jsstring" where
  "remove_tags [] = []"
| "remove_tags (c # cs) =
     (if c = 0x3C \<and> 0x3E \<in> set cs
      then remove_tags (tl (dropWhile (\<lambda>d. d \<noteq> 0x3E) cs))
      else c # remove_tags cs)"
  by pat_completeness auto
termination
proof (relation "measure length")
  show "wf (measure length)" by simp
next
  fix c :: code_unit and cs :: jsstring
  have "length (tl (dropWhile (\<lambda>d. d \<noteq> 0x3E) cs)) \<le> length cs"
    using length_dropWhile_le [of "\<lambda>d. d \<noteq> 0x3E" cs] by simp
  then show "(tl (dropWhile (\<lambda>d. d \<noteq> 0x3E) cs), c # cs) \<in> measure length" by simp
next
  fix c :: code_unit and cs :: jsstring
  show "(cs, c # cs) \<in> measure length" by simp
qed

text \<open>\<open>replace(/\s+/g, ' ')\<close>: every maximal run of white space becomes one space.\<close>

function normalize_whitespace :: "jsstring \<Rightarrow> jsstring" where
  "normalize_whitespace [] = []"
| "normalize_whitespace (c # cs) =
     (if is_whitespace c
      then 0x20 # normalize_whitespace (dropWhile is_whitespace cs)
      else c # normalize_whitespace cs)"
  by pat_completeness auto
termination
proof (relation "measure length")
  show "wf (measure length)" by simp
next
  fix c :: code_unit and cs :: jsstring
  have "length (dropWhile is_whitespace cs) \<le> length cs"
    by (rule length_dropWhile_le)
  then show "(dropWhile is_whitespace cs, c # cs) \<in> measure length" by simp
next
  fix c :: code_unit and cs :: jsstring
  show "(cs, c # cs) \<in> measure length" by simp
qed

section \<open>The adapters (providers.ts)\<close>

text \<open>
  Each adapter holds an SDK client. The client is outside the repository: it is a
  parameter, a function from the request the adapter builds to how the awaited call
  settles (\<open>Inl\<close> the thrown value, \<open>Inr\<close> the response). Every adapter's \<open>generate\<close>
  returns how its promise settles together with the list of requests it sent to its
  client. The API key is a \<open>string\<close> by its declared type, so \<open>typeof ... === 'string'\<close>
  holds and is not written out; \<open>this.client.apiKey\<close> is the key the client was
  constructed with. The \<open>console\<close> output of the adapters is not modelled.
\<close>

definition option_field :: "('o \<Rightarrow> 'a option) \<Rightarrow> 'o option \<Rightarrow> 'a option" where
  \<comment> \<open>\<open>options?.field\<close>\<close>
  "option_field f options = (case options of None \<Rightarrow> None | Some opts \<Rightarrow> f opts)"

definition catch_message :: "js_error \<Rightarrow> jsstring option" where
  \<comment> \<open>\<open>error instanceof Error ? error.message : 'Unknown error'\<close>\<close>
  "catch_message error =
     (if instanceof_Error error then message error else Some (js ''Unknown error''))"

subsection \<open>HuggingFaceProvider\<close>

record hf_request =
  hf_model :: jsstring
  hf_inputs :: jsstring
  hf_max_new_tokens :: jsnumber
  hf_temperature :: jsnumber
  hf_top_p :: jsnumber
  hf_return_full_text :: bool

record hf_response =
  generated_text :: "jsstring option"

type_synonym hf_client = "hf_request \<Rightarrow> js_error + hf_response"

definition HuggingFace_modelName :: jsstring where
  "HuggingFace_modelName = js ''mistralai/Mistral-Nemo-Instruct-2407''"

definition HuggingFaceProvider_isAvailable :: "jsstring \<Rightarrow> bool" where
  "HuggingFaceProvider_isAvailable apiKey = (length apiKey > 0)"

definition HuggingFaceProvider_request :: "jsstring \<Rightarrow> gen_options option \<Rightarrow> hf_request" where
  "HuggingFaceProvider_request prompt options =
     \<lparr>hf_model = or_string (option_field model options) HuggingFace_modelName,
      hf_inputs = prompt,
      hf_max_new_tokens = or_number (option_field max_tokens options) (Fin 100),
      hf_temperature = or_number (option_field temperature options) (Fin (7/10)),
      hf_top_p = Fin (95/100),
      hf_return_full_text = False\<rparr>"

definition HuggingFaceProvider_generate ::
  "jsstring \<Rightarrow> hf_client \<Rightarrow> jsstring \<Rightarrow> gen_options option \<Rightarrow>
     (js_error + jsstring) \<times> hf_request list" where
  "HuggingFaceProvider_generate apiKey client prompt options =
     (if \<not> HuggingFaceProvider_isAvailable apiKey
      then (Inl (Error (js ''HuggingFace API key not set'')), [])
      else
        (let request = HuggingFaceProvider_request prompt options in
         (case client request of
            Inr response \<Rightarrow>
              (let text = or_string (generated_text response) [];
                   text = trim (normalize_whitespace (remove_tags text))
               in Inr (if length text > 0 then text else js ''No response generated''))
          | Inl error \<Rightarrow>
              Inl (Error (js ''HuggingFace API error: '' @ interpolate (catch_message error))),
          [request])))"

subsection \<open>The chat-completion client shared by OpenRouterProvider and NvidiaProvider\<close>

record chat_request =
  chat_model :: jsstring
  chat_messages :: "(jsstring \<times> jsstring) list"  \<comment> \<open>role and content\<close>
  chat_temperature :: jsnumber
  chat_max_tokens :: jsnumber
  chat_top_p :: "jsnumber option"
  chat_stream :: "bool option"
  chat_headers :: "(jsstring \<times> jsstring) list option"  \<comment> \<open>the per-request options\<close>

datatype chat_message = ChatMessage (content: "jsstring option")
datatype choice = Choice (choice_message: "chat_message option")
datatype chat_completion = ChatCompletion (choices: "choice list option")

type_synonym chat_client = "chat_request \<Rightarrow> js_error + chat_completion"

definition first_content :: "choice list \<Rightarrow> jsstring option" where
  \<comment> \<open>\<open>choices[0]?.message?.content\<close> of an array\<close>
  "first_content chs =
     (case chs of [] \<Rightarrow> None
      | ch # _ \<Rightarrow> (case choice_message ch of None \<Rightarrow> None | Some m \<Rightarrow> content m))"

subsection \<open>OpenRouterProvider\<close>

record siteInfo =
  url :: jsstring
  site_name :: jsstring

text \<open>The default of the constructor's \<open>siteInfo\<close> parameter.\<close>

definition default_siteInfo :: siteInfo where
  "default_siteInfo = \<lparr>url = js ''http://localhost:3000'', site_name = js ''LLM Fallback Test''\<rparr>"

definition OpenRouter_modelName :: jsstring where
  "OpenRouter_modelName = js ''mistralai/mistral-7b-instruct:free''"

definition OpenRouterProvider_isAvailable :: "jsstring \<Rightarrow> bool" where
  "OpenRouterProvider_isAvailable apiKey = (length apiKey > 0 \<and> apiKey \<noteq> js ''invalid-key'')"

definition OpenRouterProvider_request ::
  "siteInfo \<Rightarrow> jsstring \<Rightarrow> gen_options option \<Rightarrow> chat_request" where
  "OpenRouterProvider_request site prompt options =
     \<lparr>chat_model = or_string (option_field model options) OpenRouter_modelName,
      chat_messages = [(js ''user'', prompt)],
      chat_temperature = nullish_number (option_field temperature options) (Fin (7/10)),
      chat_max_tokens = nullish_number (option_field max_tokens options) (Fin 1000),
      chat_top_p = None,
      chat_stream = None,
      chat_headers = Some [(js ''HTTP-Referer'', url site), (js ''X-Title'', site_name site)]\<rparr>"

text \<open>The \<open>catch\<close> clause of \<open>OpenRouterProvider.generate\<close>: what it throws.\<close>

definition OpenRouter_catch :: "js_error \<Rightarrow> js_error" where
  "OpenRouter_catch error =
     (let statusCode = response_status error in
      if statusCode = Some (Fin 401)
      then Error (js ''OpenRouter authentication failed: Invalid API key'')
      else if statusCode = Some (Fin 429)
      then Error (js ''OpenRouter rate limit exceeded'')
      else Error (js ''OpenRouter error: '' @ or_string (message error) (js ''Unknown error'')))"

definition OpenRouterProvider_generate ::
  "jsstring \<Rightarrow> siteInfo \<Rightarrow> chat_client \<Rightarrow> jsstring \<Rightarrow> gen_options option \<Rightarrow>
     (js_error + jsstring) \<times> chat_request list" where
  "OpenRouterProvider_generate apiKey site client prompt options =
     (if \<not> OpenRouterProvider_isAvailable apiKey
      then (Inl (Error (js ''OpenRouter API key not set'')), [])
      else
        (let request = OpenRouterProvider_request site prompt options;
             attempt =
               (case client request of
                  Inl error \<Rightarrow> Inl error
                | Inr completion \<Rightarrow>
                    (case option_field first_content (choices completion) of
                       None \<Rightarrow> Inl (Error (js ''No response content received''))
                     | Some c \<Rightarrow>
                         if c = [] then Inl (Error (js ''No response content received''))
                         else Inr (trim c)))
         in (case attempt of
               Inr result \<Rightarrow> Inr result
             | Inl error \<Rightarrow> Inl (OpenRouter_catch error),
             [request])))"

subsection \<open>NvidiaProvider\<close>

definition Nvidia_modelName :: jsstring where
  "Nvidia_modelName = js ''meta/llama-3.3-70b-instruct''"

definition NvidiaProvider_isAvailable :: "jsstring \<Rightarrow> bool" where
  "NvidiaProvider_isAvailable apiKey = (length apiKey > 0)"

definition NvidiaProvider_request :: "jsstring \<Rightarrow> gen_options option \<Rightarrow> chat_request" where
  "NvidiaProvider_request prompt options =
     \<lparr>chat_model = or_string (option_field model options) Nvidia_modelName,
      chat_messages = [(js ''user'', prompt)],
      chat_temperature = or_number (option_field temperature options) (Fin (7/10)),
      chat_max_tokens = or_number (option_field max_tokens options) (Fin 1000),
      chat_top_p = Some (Fin (7/10)),
      chat_stream = Some False,
      chat_headers = None\<rparr>"

text \<open>
  \<open>completion.choices[0]\<close> has no \<open>?.\<close> after \<open>choices\<close>: if \<open>choices\<close> is undefined
  the index throws a \<open>TypeError\<close> inside the \<open>try\<close> (the message is the engine's).
\<close>

definition TypeError_reading_0 :: js_error where
  "TypeError_reading_0 =
     (Error (js ''Cannot read properties of undefined (reading '' @ [0x27, 0x30, 0x27]
        @ js '')''))\<lparr>name := js ''TypeError''\<rparr>"

definition NvidiaProvider_generate ::
  "jsstring \<Rightarrow> chat_client \<Rightarrow> jsstring \<Rightarrow> gen_options option \<Rightarrow>
     (js_error + jsstring) \<times> chat_request list" where
  "NvidiaProvider_generate apiKey client prompt options =
     (if \<not> NvidiaProvider_isAvailable apiKey
      then (Inl (Error (js ''NVIDIA API key not set'')), [])
      else
        (let request = NvidiaProvider_request prompt options;
             attempt =
               (case client request of
                  Inl error \<Rightarrow> Inl error
                | Inr completion \<Rightarrow>
                    (case choices completion of
                       None \<Rightarrow> Inl TypeError_reading_0
                     | Some chs \<Rightarrow>
                         (let response = map_option trim (first_content chs)
                          in Inr (or_string response (js ''No response generated'')))))
         in (case attempt of
               Inr result \<Rightarrow> Inr result
             | Inl error \<Rightarrow>
                 Inl (Error (js ''NVIDIA API error: '' @ interpolate (catch_message error))),
             [request])))"

subsection \<open>GeminiProvider\<close>

record gemini_request =
  gemini_model :: jsstring
  gemini_contents :: "(jsstring \<times> jsstring list) list"  \<comment> \<open>role and the texts of the parts\<close>
  gemini_temperature :: jsnumber
  gemini_maxOutputTokens :: jsnumber
  gemini_topP :: jsnumber
  gemini_topK :: jsnumber

text \<open>
  The result of \<open>generateContent\<close>: its optional \<open>response\<close>, given by what calling
  \<open>text()\<close> on it does (throw, or return a string or \<open>undefined\<close>).
\<close>

record gemini_result =
  response_text :: "(js_error + jsstring option) option"

type_synonym gemini_client = "gemini_request \<Rightarrow> js_error + gemini_result"

definition Gemini_modelName :: jsstring where
  "Gemini_modelName = js ''gemini-1.5-flash''"

definition GeminiProvider_isAvailable :: "jsstring \<Rightarrow> bool" where
  "GeminiProvider_isAvailable apiKey = (length apiKey > 0)"

definition GeminiProvider_request :: "jsstring \<Rightarrow> gen_options option \<Rightarrow> gemini_request" where
  "GeminiProvider_request prompt options =
     \<lparr>gemini_model = or_string (option_field model options) Gemini_modelName,
      gemini_contents = [(js ''user'', [prompt])],
      gemini_temperature = or_number (option_field temperature options) (Fin (7/10)),
      gemini_maxOutputTokens = or_number (option_field max_tokens options) (Fin 1000),
      gemini_topP = Fin (95/100),
      gemini_topK = Fin 64\<rparr>"

definition GeminiProvider_generate ::
  "jsstring \<Rightarrow> gemini_client \<Rightarrow> jsstring \<Rightarrow> gen_options option \<Rightarrow>
     (js_error + jsstring) \<times> gemini_request list" where
  "GeminiProvider_generate apiKey client prompt options =
     (if \<not> GeminiProvider_isAvailable apiKey
      then (Inl (Error (js ''Gemini API key not set'')), [])
      else
        (let request = GeminiProvider_request prompt options;
             attempt =
               (case client request of
                  Inl error \<Rightarrow> Inl error
                | Inr result \<Rightarrow>
                    (case response_text result of
                       None \<Rightarrow> Inr (or_string None (js ''No response generated''))
                     | Some (Inl error) \<Rightarrow> Inl error
                     | Some (Inr text) \<Rightarrow>
                         (let response = map_option trim text
                          in Inr (or_string response (js ''No response generated'')))))
         in (case attempt of
               Inr result \<Rightarrow> Inr result
             | Inl error \<Rightarrow>
                 Inl (Error (js ''Gemini API error: '' @ interpolate (catch_message error))),
             [request])))"

subsection \<open>The adapters as providers, and the router's constructor\<close>

definition HuggingFaceProvider :: "jsstring \<Rightarrow> hf_client \<Rightarrow> LLMProvider" where
  "HuggingFaceProvider apiKey client =
     \<lparr>constructor_name = js ''HuggingFaceProvider'',
      isAvailable = HuggingFaceProvider_isAvailable apiKey,
      generate = (\<lambda>prompt options. fst (HuggingFaceProvider_generate apiKey client prompt options))\<rparr>"

definition OpenRouterProvider :: "jsstring \<Rightarrow> siteInfo \<Rightarrow> chat_client \<Rightarrow> LLMProvider" where
  "OpenRouterProvider apiKey site client =
     \<lparr>constructor_name = js ''OpenRouterProvider'',
      isAvailable = OpenRouterProvider_isAvailable apiKey,
      generate =
        (\<lambda>prompt options. fst (OpenRouterProvider_generate apiKey site client prompt options))\<rparr>"

definition NvidiaProvider :: "jsstring \<Rightarrow> chat_client \<Rightarrow> LLMProvider" where
  "NvidiaProvider apiKey client =
     \<lparr>constructor_name = js ''NvidiaProvider'',
      isAvailable = NvidiaProvider_isAvailable apiKey,
      generate = (\<lambda>prompt options. fst (NvidiaProvider_generate apiKey client prompt options))\<rparr>"

definition GeminiProvider :: "jsstring \<Rightarrow> gemini_client \<Rightarrow> LLMProvider" where
  "GeminiProvider apiKey client =
     \<lparr>constructor_name = js ''GeminiProvider'',
      isAvailable = GeminiProvider_isAvailable apiKey,
      generate = (\<lambda>prompt options. fst (GeminiProvider_generate apiKey client prompt options))\<rparr>"

text \<open>
  \<open>this.providers = providers || [...]\<close>: an array, even an empty one, is truthy, so
  only an absent argument gives the defaults, which the caller of this model supplies
  (they are built from the process environment).
\<close>

definition LLMClient_new :: "LLMProvider list option \<Rightarrow> LLMProvider list \<Rightarrow> LLMClient" where
  "LLMClient_new ps defaults = \<lparr>providers = (case ps of None \<Rightarrow> defaults | Some l \<Rightarrow> l)\<rparr>"

section \<open>Providers with fixed behaviour, for the example scenarios\<close>

definition stub_provider :: "string \<Rightarrow> bool \<Rightarrow> js_error + jsstring \<Rightarrow> LLMProvider" where
  "stub_provider class_name available outcome =
     \<lparr>constructor_name = js class_name, isAvailable = available,
      generate = (\<lambda>prompt options. outcome)\<rparr>"

text \<open>
  Clients with fixed behaviour: one that answers every request with the given text, one
  that rejects every request with the given value, and the value the \<open>openai\<close>
  client (\<open>new OpenAI(...)\<close>, \<open>chat.completions.create\<close>) rejects with when the
  backend answers with an HTTP error status: an \<open>Error\<close> whose \<open>status\<close> is the
  HTTP status and which has no \<open>response\<close> property.
\<close>

definition hf_replies :: "jsstring option \<Rightarrow> hf_client" where
  "hf_replies t = (\<lambda>request. Inr \<lparr>generated_text = t\<rparr>)"

definition chat_replies :: "jsstring option \<Rightarrow> chat_client" where
  "chat_replies c = (\<lambda>request. Inr (ChatCompletion (Some [Choice (Some (ChatMessage c))])))"

definition chat_rejects :: "js_error \<Rightarrow> chat_client" where
  "chat_rejects e = (\<lambda>request. Inl e)"

definition gemini_replies :: "jsstring option \<Rightarrow> gemini_client" where
  "gemini_replies t = (\<lambda>request. Inr \<lparr>response_text = Some (Inr t)\<rparr>)"

definition api_error :: "string \<Rightarrow> rat \<Rightarrow> js_error" where
  "api_error text code = (Error (js text))\<lparr>status := Some (Fin code)\<rparr>"

text \<open>Three providers, all configured: A answers, B is rate limited, C answers.\<close>

definition scenario_first_answers :: "LLMProvider list" where
  "scenario_first_answers =
     [stub_provider ''A'' True (Inr (js ''a'')),
      stub_provider ''B'' True (Inl (Error (js ''rate limit exceeded''))),
      stub_provider ''C'' True (Inr (js ''c''))]"

text \<open>A is not configured, B is rate limited, C answers \<open>42\<close>.\<close>

definition scenario_third_answers :: "LLMProvider list" where
  "scenario_third_answers =
     [stub_provider ''A'' False (Inr (js ''unused'')),
      stub_provider ''B'' True (Inl (Error (js ''rate limit exceeded''))),
      stub_provider ''C'' True (Inr (js ''42''))]"

text \<open>A is not configured and B is rate limited: nobody answers.\<close>

definition scenario_none_answers :: "LLMProvider list" where
  "scenario_none_answers =
     [stub_provider ''A'' False (Inr (js ''unused'')),
      stub_provider ''B'' True (Inl (Error (js ''rate limit exceeded'')))]"

section \<open>Properties of the encoding of strings\<close>

lemma unat_js_char: "unat (js_char c) = of_char c"
proof -
  have "(of_char c :: nat) mod 256 = of_char c" by (rule of_char_mod_256)
  then have "(of_char c :: nat) < 256" by (metis mod_less_divisor zero_less_numeral)
  then have "(of_char c :: nat) < 65536" by linarith
  then show ?thesis unfolding js_char_def
    by (simp add: unat_of_nat)
qed

lemma js_char_eq_iff [simp]: "js_char c = js_char d \<longleftrightarrow> c = d"
  by (metis unat_js_char of_char_eq_iff)

lemma js_Nil [simp]: "js [] = []"
  by (simp add: js_def)

lemma js_Cons: "js (c # s) = js_char c # js s"
  by (simp add: js_def)

lemma js_eq_iff [simp]: "js s = js t \<longleftrightarrow> s = t"
  unfolding js_def by (simp add: inj_map_eq_map inj_on_def)

lemma js_eq_Nil_iff [simp]: "js s = [] \<longleftrightarrow> s = []"
  by (simp add: js_def)

lemma js_append [simp]: "js s @ js t = js (s @ t)"
  by (simp add: js_def)

lemma js_append_assoc [simp]: "js s @ js t @ u = js (s @ t) @ u"
  by (simp add: js_def)

section \<open>The router's loop, one provider at a time\<close>

lemma generate_from_unavailable:
  "\<not> isAvailable p \<Longrightarrow>
     generate_from i (p # rest) prompt options =
       (fst (generate_from (Suc i) rest prompt options),
        (i, IsAvailableCalled) # snd (generate_from (Suc i) rest prompt options))"
  by (simp split: prod.splits)

lemma generate_from_rejected:
  "isAvailable p \<Longrightarrow> generate p prompt options = Inl e \<Longrightarrow>
     generate_from i (p # rest) prompt options =
       (fst (generate_from (Suc i) rest prompt options),
        [(i, IsAvailableCalled), (i, GenerateCalled),
         (i, ConsoleError (constructor_name p @ js '' failed: '' @ interpolate
               (if instanceof_Error e then message e else Some (js ''Unknown error occurred''))))]
        @ snd (generate_from (Suc i) rest prompt options))"
  by (simp split: prod.splits)

lemma generate_from_resolved:
  "isAvailable p \<Longrightarrow> generate p prompt options = Inr r \<Longrightarrow>
     generate_from i (p # rest) prompt options =
       (Inr r, [(i, IsAvailableCalled), (i, GenerateCalled),
                (i, ConsoleLog (js ''Successfully used '' @ constructor_name p))])"
  by simp

declare generate_from.simps(2) [simp del]

lemma upt_shift: "[i..<Suc (i + n)] = i # [Suc i..<Suc (i + n)]"
  by (simp add: upt_conv_Cons del: upt_Suc)

lemma provider_cases:
  obtains (unavailable) "\<not> isAvailable p"
  | (rejected) e where "isAvailable p" "generate p prompt options = Inl e"
  | (resolved) r where "isAvailable p" "generate p prompt options = Inr r"
  by (cases "isAvailable p"; cases "generate p prompt options") auto

lemma unavailable_or_fails_Cons:
  "unavailable_or_fails p prompt options \<Longrightarrow>
     fst (generate_from i (p # rest) prompt options) = fst (generate_from (Suc i) rest prompt options)
   \<and> availability_checks (snd (generate_from i (p # rest) prompt options))
       = i # availability_checks (snd (generate_from (Suc i) rest prompt options))
   \<and> generate_calls (snd (generate_from i (p # rest) prompt options))
       = (if isAvailable p then [i] else []) @ generate_calls (snd (generate_from (Suc i) rest prompt options))
   \<and> success_paths (snd (generate_from i (p # rest) prompt options))
       = success_paths (snd (generate_from (Suc i) rest prompt options))"
proof (cases rule: provider_cases [where p = p and prompt = prompt and options = options])
  case unavailable
  show ?thesis
    by (simp add: generate_from_unavailable [OF unavailable] unavailable)
next
  case (rejected e)
  show ?thesis
    by (simp add: generate_from_rejected [OF rejected] rejected)
next
  case (resolved r)
  assume "unavailable_or_fails p prompt options"
  with resolved show ?thesis by (simp add: unavailable_or_fails_def)
qed

lemma generate_from_append:
  "generate_from i (xs @ ys) prompt options =
     (case fst (generate_from i xs prompt options) of
        Inr r \<Rightarrow> generate_from i xs prompt options
      | Inl e \<Rightarrow>
          (fst (generate_from (i + length xs) ys prompt options),
           snd (generate_from i xs prompt options)
             @ snd (generate_from (i + length xs) ys prompt options)))"
proof (induction xs arbitrary: i)
  case Nil
  show ?case by simp
next
  case (Cons p xs)
  show ?case
  proof (cases rule: provider_cases [where p = p and prompt = prompt and options = options])
    case unavailable
    show ?thesis
      using Cons.IH [of "Suc i"]
      by (simp add: generate_from_unavailable [OF unavailable]
               split: sum.splits)
  next
    case (rejected e)
    show ?thesis
      using Cons.IH [of "Suc i"]
      by (simp add: generate_from_rejected [OF rejected]
               split: sum.splits)
  next
    case (resolved r)
    show ?thesis
      by (simp add: generate_from_resolved [OF resolved])
  qed
qed

lemma generate_from_fails:
  "fst (generate_from i ps prompt options) = Inl e \<Longrightarrow>
     e = AllProvidersFailedError (js ''All LLM providers failed'')"
proof (induction ps arbitrary: i)
  case Nil
  then show ?case by simp
next
  case (Cons p ps)
  show ?case
  proof (cases rule: provider_cases [where p = p and prompt = prompt and options = options])
    case unavailable
    from Cons.prems have "fst (generate_from (Suc i) ps prompt options) = Inl e"
      by (simp add: generate_from_unavailable [OF unavailable])
    then show ?thesis by (rule Cons.IH)
  next
    case (rejected e')
    from Cons.prems have "fst (generate_from (Suc i) ps prompt options) = Inl e"
      by (simp add: generate_from_rejected [OF rejected])
    then show ?thesis by (rule Cons.IH)
  next
    case (resolved r)
    from Cons.prems show ?thesis
      by (simp add: generate_from_resolved [OF resolved])
  qed
qed

lemma exhausted_result:
  "\<forall>p\<in>set ps. unavailable_or_fails p prompt options \<Longrightarrow>
     fst (generate_from i ps prompt options)
       = Inl (AllProvidersFailedError (js ''All LLM providers failed''))"
proof (induction ps arbitrary: i)
  case Nil
  show ?case by simp
next
  case (Cons p ps)
  then have "unavailable_or_fails p prompt options" by simp
  from unavailable_or_fails_Cons [OF this, of i ps] Cons show ?case by simp
qed

lemma exhausted_checks:
  "\<forall>p\<in>set ps. unavailable_or_fails p prompt options \<Longrightarrow>
     availability_checks (snd (generate_from i ps prompt options)) = [i..<i + length ps]"
proof (induction ps arbitrary: i)
  case Nil
  show ?case by simp
next
  case (Cons p ps)
  then have "unavailable_or_fails p prompt options" by simp
  from unavailable_or_fails_Cons [OF this, of i ps] Cons show ?case
    by (simp add: upt_shift del: upt_Suc)
qed

lemma exhausted_calls:
  "\<forall>p\<in>set ps. unavailable_or_fails p prompt options \<Longrightarrow>
     generate_calls (snd (generate_from i ps prompt options))
       = map fst (filter (\<lambda>e. isAvailable (snd e)) (enumerate i ps))"
proof (induction ps arbitrary: i)
  case Nil
  show ?case by simp
next
  case (Cons p ps)
  then have "unavailable_or_fails p prompt options" by simp
  from unavailable_or_fails_Cons [OF this, of i ps] Cons show ?case by simp
qed

lemma exhausted_no_success:
  "\<forall>p\<in>set ps. unavailable_or_fails p prompt options \<Longrightarrow>
     success_paths (snd (generate_from i ps prompt options)) = []"
proof (induction ps arbitrary: i)
  case Nil
  show ?case by simp
next
  case (Cons p ps)
  then have "unavailable_or_fails p prompt options" by simp
  from unavailable_or_fails_Cons [OF this, of i ps] Cons show ?case by simp
qed

lemma trace_positions:
  "\<forall>e\<in>set (snd (generate_from i ps prompt options)). i \<le> fst e \<and> fst e < i + length ps"
proof (induction ps arbitrary: i)
  case Nil
  show ?case by simp
next
  case (Cons p ps)
  show ?case
  proof (cases rule: provider_cases [where p = p and prompt = prompt and options = options])
    case unavailable
    show ?thesis
      using Cons.IH [of "Suc i"]
      by (auto simp add: generate_from_unavailable [OF unavailable])
  next
    case (rejected e)
    show ?thesis
      using Cons.IH [of "Suc i"]
      by (auto simp add: generate_from_rejected [OF rejected])
  next
    case (resolved r)
    show ?thesis
      by (simp add: generate_from_resolved [OF resolved])
  qed
qed

lemma availability_checks_append:
  "availability_checks (a @ b) = availability_checks a @ availability_checks b"
  by (induction a rule: availability_checks.induct) simp_all

lemma generate_calls_append:
  "generate_calls (a @ b) = generate_calls a @ generate_calls b"
  by (induction a rule: generate_calls.induct) simp_all

lemma success_paths_append:
  "success_paths (a @ b) = success_paths a @ success_paths b"
  by (induction a rule: success_paths.induct) simp_all

lemma the_error_fields:
  "name (AllProvidersFailedError m) = js ''AllProvidersFailedError''
   \<and> message (AllProvidersFailedError m) = Some m
   \<and> instanceof_Error (AllProvidersFailedError m)"
  by (simp add: AllProvidersFailedError_def Error_def)

section \<open>First success wins\<close>

text \<open>
  In the scenario where A answers, B is rate limited and C answers, position 1 fails
  and position 2 succeeds, yet the router returns A's text and C is never consulted.
\<close>

theorem next_provider_counterexample:
  "unavailable_or_fails (scenario_first_answers ! 1) (js ''x'') None
   \<and> succeeds_with (scenario_first_answers ! Suc 1) (js ''x'') None (js ''c'')
   \<and> fst (LLMClient_generate \<lparr>providers = scenario_first_answers\<rparr> (js ''x'') None)
       = Inr (js ''a'')
   \<and> fst (LLMClient_generate \<lparr>providers = scenario_first_answers\<rparr> (js ''x'') None)
       \<noteq> Inr (js ''c'')
   \<and> success_paths
        (snd (LLMClient_generate \<lparr>providers = scenario_first_answers\<rparr> (js ''x'') None))
       = [0]"
  by (simp add: scenario_first_answers_def unavailable_or_fails_def succeeds_with_def
        stub_provider_def LLMClient_generate_def generate_from.simps)

text \<open>
  C1, with the condition on all providers up to position \<open>i\<close>: if every provider at
  positions \<open>0..i\<close> is unavailable or fails and the provider at position \<open>i+1\<close> is
  available and succeeds with \<open>r\<close>, then \<open>generate\<close> returns \<open>r\<close>, the only success
  path that runs is that of position \<open>i+1\<close>, the providers asked for availability are
  exactly those at positions \<open>0..i+1\<close> in that order, and the providers whose
  \<open>generate\<close> is called are the available ones among them: nothing after position
  \<open>i+1\<close> is consulted.
\<close>

theorem first_success_serves:
  assumes len: "Suc i < length (providers this)"
    and before: "\<forall>p\<in>set (take (Suc i) (providers this)). unavailable_or_fails p prompt options"
    and ok: "succeeds_with (providers this ! Suc i) prompt options r"
  shows "fst (LLMClient_generate this prompt options) = Inr r
       \<and> success_paths (snd (LLMClient_generate this prompt options)) = [Suc i]
       \<and> availability_checks (snd (LLMClient_generate this prompt options)) = [0..<Suc (Suc i)]
       \<and> generate_calls (snd (LLMClient_generate this prompt options))
           = map fst (filter (\<lambda>e. isAvailable (snd e))
               (enumerate 0 (take (Suc (Suc i)) (providers this))))"
proof -
  let ?ps = "providers this"
  let ?xs = "take (Suc i) ?ps"
  let ?p = "?ps ! Suc i"
  let ?ys = "drop (Suc (Suc i)) ?ps"
  let ?t = "snd (generate_from 0 ?xs prompt options)"
  let ?u = "[(Suc i, IsAvailableCalled), (Suc i, GenerateCalled),
             (Suc i, ConsoleLog (js ''Successfully used '' @ constructor_name ?p))]"
  have split: "?ps = ?xs @ ?p # ?ys"
    using len by (rule id_take_nth_drop)
  have lxs: "length ?xs = Suc i" using len by simp
  from ok have av: "isAvailable ?p" and res: "generate ?p prompt options = Inr r"
    by (simp_all add: succeeds_with_def)
  have tail: "generate_from (Suc i) (?p # ?ys) prompt options = (Inr r, ?u)"
    by (rule generate_from_resolved [OF av res])
  have "generate_from 0 (?xs @ ?p # ?ys) prompt options = (Inr r, ?t @ ?u)"
    using exhausted_result [OF before, of 0] tail lxs
    by (simp add: generate_from_append)
  with split have run: "LLMClient_generate this prompt options = (Inr r, ?t @ ?u)"
    by (simp add: LLMClient_generate_def)
  have take2: "take (Suc (Suc i)) ?ps = ?xs @ [?p]"
    using len by (rule take_Suc_conv_app_nth)
  have c: "availability_checks ?t = [0..<Suc i]"
    using exhausted_checks [OF before, of 0] lxs by simp
  have g: "generate_calls ?t = map fst (filter (\<lambda>e. isAvailable (snd e)) (enumerate 0 ?xs))"
    using exhausted_calls [OF before, of 0] .
  have s: "success_paths ?t = []"
    using exhausted_no_success [OF before, of 0] .
  have "fst (LLMClient_generate this prompt options) = Inr r"
    by (simp add: run)
  moreover have "success_paths (snd (LLMClient_generate this prompt options)) = [Suc i]"
    by (simp add: run success_paths_append s)
  moreover have "availability_checks (snd (LLMClient_generate this prompt options))
      = [0..<Suc (Suc i)]"
    by (simp add: run availability_checks_append c)
  moreover have "generate_calls (snd (LLMClient_generate this prompt options))
      = map fst (filter (\<lambda>e. isAvailable (snd e))
          (enumerate 0 (take (Suc (Suc i)) (providers this))))"
    using len by (simp add: run generate_calls_append g take2 enumerate_append_eq av min_def)
  ultimately show ?thesis by simp
qed

theorem first_success_serves_witness:
  "Suc 1 < length (providers \<lparr>providers = scenario_third_answers\<rparr>)
   \<and> unavailable_or_fails (scenario_third_answers ! 0) (js ''x'') None
   \<and> unavailable_or_fails (scenario_third_answers ! 1) (js ''x'') None
   \<and> succeeds_with (providers \<lparr>providers = scenario_third_answers\<rparr> ! Suc 1)
         (js ''x'') None (js ''42'')
   \<and> fst (LLMClient_generate \<lparr>providers = scenario_third_answers\<rparr> (js ''x'') None)
       = Inr (js ''42'')
   \<and> success_paths
        (snd (LLMClient_generate \<lparr>providers = scenario_third_answers\<rparr> (js ''x'') None))
       = [2]
   \<and> availability_checks
        (snd (LLMClient_generate \<lparr>providers = scenario_third_answers\<rparr> (js ''x'') None))
       = [0, 1, 2]
   \<and> generate_calls
        (snd (LLMClient_generate \<lparr>providers = scenario_third_answers\<rparr> (js ''x'') None))
       = [1, 2]"
  using first_success_serves
    [of 1 "\<lparr>providers = scenario_third_answers\<rparr>" "js ''x''" None "js ''42''"]
  by (simp add: scenario_third_answers_def unavailable_or_fails_def succeeds_with_def
        stub_provider_def upt_conv_Cons)

section \<open>Exhaustion\<close>

text \<open>
  C2: if every provider of the list is unavailable or fails, \<open>generate\<close> fails with
  \<open>AllProvidersFailedError\<close>, and by then every position of the list has been asked
  for availability exactly once, in index order, the \<open>generate\<close> of exactly the
  available ones has been called once, in order, and no success path has run.
\<close>

theorem all_fail:
  assumes "\<forall>p\<in>set (providers this). unavailable_or_fails p prompt options"
  shows "fst (LLMClient_generate this prompt options)
           = Inl (AllProvidersFailedError (js ''All LLM providers failed''))
       \<and> availability_checks (snd (LLMClient_generate this prompt options))
           = [0..<length (providers this)]
       \<and> generate_calls (snd (LLMClient_generate this prompt options))
           = map fst (filter (\<lambda>e. isAvailable (snd e)) (enumerate 0 (providers this)))
       \<and> success_paths (snd (LLMClient_generate this prompt options)) = []"
  unfolding LLMClient_generate_def
  using exhausted_result [OF assms, of 0] exhausted_checks [OF assms, of 0]
        exhausted_calls [OF assms, of 0] exhausted_no_success [OF assms, of 0]
  by simp

theorem all_fail_witness:
  "unavailable_or_fails (scenario_none_answers ! 0) (js ''x'') None
   \<and> unavailable_or_fails (scenario_none_answers ! 1) (js ''x'') None
   \<and> fst (LLMClient_generate \<lparr>providers = scenario_none_answers\<rparr> (js ''x'') None)
       = Inl (AllProvidersFailedError (js ''All LLM providers failed''))
   \<and> availability_checks
        (snd (LLMClient_generate \<lparr>providers = scenario_none_answers\<rparr> (js ''x'') None))
       = [0, 1]
   \<and> generate_calls
        (snd (LLMClient_generate \<lparr>providers = scenario_none_answers\<rparr> (js ''x'') None))
       = [1]"
  using all_fail [of "\<lparr>providers = scenario_none_answers\<rparr>" "js ''x''" None]
  by (simp add: scenario_none_answers_def unavailable_or_fails_def stub_provider_def
        upt_conv_Cons)

text \<open>
  The error raised for the empty list, where nothing is attempted, and the error raised
  after one skipped and one failed provider are the same value: it holds no count.
\<close>

theorem aggregate_error_counterexample:
  "fst (LLMClient_generate \<lparr>providers = []\<rparr> (js ''x'') None)
     = fst (LLMClient_generate \<lparr>providers = scenario_none_answers\<rparr> (js ''x'') None)
   \<and> generate_calls (snd (LLMClient_generate \<lparr>providers = []\<rparr> (js ''x'') None)) = []
   \<and> availability_checks (snd (LLMClient_generate \<lparr>providers = []\<rparr> (js ''x'') None)) = []
   \<and> generate_calls
        (snd (LLMClient_generate \<lparr>providers = scenario_none_answers\<rparr> (js ''x'') None)) = [1]
   \<and> availability_checks
        (snd (LLMClient_generate \<lparr>providers = scenario_none_answers\<rparr> (js ''x'') None)) = [0, 1]"
  by (simp add: scenario_none_answers_def stub_provider_def LLMClient_generate_def
        generate_from.simps)

text \<open>
  C3, as the code has it: whenever the router's \<open>generate\<close> fails, the error is the
  one built by \<open>new AllProvidersFailedError('All LLM providers failed')\<close>, whatever the
  provider list: its name is \<open>AllProvidersFailedError\<close>, its message the fixed text,
  and it has no other content.
\<close>

theorem aggregate_error_fixed:
  assumes "fst (LLMClient_generate this prompt options) = Inl e"
  shows "e = AllProvidersFailedError (js ''All LLM providers failed'')
       \<and> name e = js ''AllProvidersFailedError''
       \<and> message e = Some (js ''All LLM providers failed'')
       \<and> response_status e = None"
proof -
  from assms have "e = AllProvidersFailedError (js ''All LLM providers failed'')"
    unfolding LLMClient_generate_def by (rule generate_from_fails)
  then show ?thesis by (simp add: AllProvidersFailedError_def Error_def)
qed

theorem aggregate_error_fixed_witness:
  "fst (LLMClient_generate \<lparr>providers = []\<rparr> (js ''x'') None)
     = Inl (AllProvidersFailedError (js ''All LLM providers failed''))
   \<and> name (AllProvidersFailedError (js ''All LLM providers failed''))
       = js ''AllProvidersFailedError''
   \<and> message (AllProvidersFailedError (js ''All LLM providers failed''))
       = Some (js ''All LLM providers failed'')"
  using aggregate_error_fixed [of "\<lparr>providers = []\<rparr>" "js ''x''" None
    "AllProvidersFailedError (js ''All LLM providers failed'')"]
  by (simp add: LLMClient_generate_def)

section \<open>Changing the provider list\<close>

text \<open>
  C5: \<open>addProvider\<close> puts the provider at the end of the list, whether or not it is
  already there. A call of \<open>generate\<close> afterwards is the call on the old list when
  that one succeeds; otherwise it is the old trace followed by the iteration for the new
  provider. Every event of the old list has a position below the old length and every
  event of the new provider has the old length as position, so the new provider is
  tried strictly after all the others.
\<close>

theorem addProvider_last:
  "providers (addProvider this p) = providers this @ [p]
   \<and> LLMClient_generate (addProvider this p) prompt options =
       (case fst (LLMClient_generate this prompt options) of
          Inr r \<Rightarrow> LLMClient_generate this prompt options
        | Inl e \<Rightarrow>
            (fst (generate_from (length (providers this)) [p] prompt options),
             snd (LLMClient_generate this prompt options)
               @ snd (generate_from (length (providers this)) [p] prompt options)))
   \<and> (\<forall>e\<in>set (snd (LLMClient_generate this prompt options)). fst e < length (providers this))
   \<and> (\<forall>e\<in>set (snd (generate_from (length (providers this)) [p] prompt options)).
         fst e = length (providers this))"
proof -
  have "\<forall>e\<in>set (snd (generate_from 0 (providers this) prompt options)).
          fst e < length (providers this)"
    using trace_positions [of 0 "providers this" prompt options] by simp
  moreover have "\<forall>e\<in>set (snd (generate_from (length (providers this)) [p] prompt options)).
          fst e = length (providers this)"
    using trace_positions [of "length (providers this)" "[p]" prompt options] by auto
  ultimately show ?thesis
    by (cases "fst (generate_from 0 (providers this) prompt options)")
       (simp_all add: addProvider_def LLMClient_generate_def generate_from_append)
qed

theorem addProvider_last_witness:
  "providers (addProvider \<lparr>providers = scenario_none_answers\<rparr>
      (stub_provider ''C'' True (Inr (js ''42''))))
     = scenario_none_answers @ [stub_provider ''C'' True (Inr (js ''42''))]
   \<and> availability_checks (snd (LLMClient_generate
        (addProvider \<lparr>providers = scenario_none_answers\<rparr>
           (stub_provider ''C'' True (Inr (js ''42'')))) (js ''x'') None)) = [0, 1, 2]
   \<and> fst (LLMClient_generate
        (addProvider \<lparr>providers = scenario_none_answers\<rparr>
           (stub_provider ''C'' True (Inr (js ''42'')))) (js ''x'') None) = Inr (js ''42'')"
  using addProvider_last [of "\<lparr>providers = scenario_none_answers\<rparr>"
    "stub_provider ''C'' True (Inr (js ''42''))" "js ''x''" None]
  by (simp add: scenario_none_answers_def stub_provider_def LLMClient_generate_def
        generate_from.simps)

text \<open>
  C6: after \<open>setProviders([])\<close>, \<open>generate\<close> fails with
  \<open>AllProvidersFailedError\<close> and its trace is empty: no provider is asked anything.
\<close>

theorem setProviders_empty:
  "LLMClient_generate (setProviders this []) prompt options
     = (Inl (AllProvidersFailedError (js ''All LLM providers failed'')), [])"
  by (simp add: setProviders_def LLMClient_generate_def)

theorem setProviders_empty_witness:
  "LLMClient_generate (setProviders \<lparr>providers = scenario_third_answers\<rparr> []) (js ''x'') None
     = (Inl (AllProvidersFailedError (js ''All LLM providers failed'')), [])"
  using setProviders_empty [of "\<lparr>providers = scenario_third_answers\<rparr>" "js ''x''" None]
  by simp

section \<open>What the adapters send and return\<close>

lemma HuggingFace_sent:
  "HuggingFaceProvider_isAvailable k \<Longrightarrow>
     snd (HuggingFaceProvider_generate k c prompt options) = [HuggingFaceProvider_request prompt options]"
  by (simp add: HuggingFaceProvider_generate_def Let_def)

lemma OpenRouter_sent:
  "OpenRouterProvider_isAvailable k \<Longrightarrow>
     snd (OpenRouterProvider_generate k site c prompt options)
       = [OpenRouterProvider_request site prompt options]"
  by (simp add: OpenRouterProvider_generate_def Let_def)

lemma Nvidia_sent:
  "NvidiaProvider_isAvailable k \<Longrightarrow>
     snd (NvidiaProvider_generate k c prompt options) = [NvidiaProvider_request prompt options]"
  by (simp add: NvidiaProvider_generate_def Let_def)

lemma Gemini_sent:
  "GeminiProvider_isAvailable k \<Longrightarrow>
     snd (GeminiProvider_generate k c prompt options) = [GeminiProvider_request prompt options]"
  by (simp add: GeminiProvider_generate_def Let_def)

lemma sentinel_nonempty: "js ''No response generated'' \<noteq> []"
  by simp

lemma or_string_nonempty: "d \<noteq> [] \<Longrightarrow> or_string a d \<noteq> []"
  by (simp add: or_string_def split: option.splits)

lemma HuggingFace_nonempty:
  "fst (HuggingFaceProvider_generate k c prompt options) = Inr r \<Longrightarrow> r \<noteq> []"
  by (auto simp: HuggingFaceProvider_generate_def Let_def split: if_splits sum.splits)

lemma Nvidia_nonempty:
  "fst (NvidiaProvider_generate k c prompt options) = Inr r \<Longrightarrow> r \<noteq> []"
  using or_string_nonempty [OF sentinel_nonempty]
  by (auto simp: NvidiaProvider_generate_def Let_def split: if_splits sum.splits option.splits)

lemma Gemini_nonempty:
  "fst (GeminiProvider_generate k c prompt options) = Inr r \<Longrightarrow> r \<noteq> []"
  using or_string_nonempty [OF sentinel_nonempty]
  by (auto simp: GeminiProvider_generate_def Let_def split: if_splits sum.splits option.splits)

lemma trim_Nil [simp]: "trim [] = []"
  by (simp add: trim_def)

lemma HuggingFace_empty:
  "HuggingFaceProvider_isAvailable k \<Longrightarrow>
   c (HuggingFaceProvider_request prompt options) = Inr resp \<Longrightarrow>
   generated_text resp = None \<or> generated_text resp = Some [] \<Longrightarrow>
   fst (HuggingFaceProvider_generate k c prompt options) = Inr (js ''No response generated'')"
  by (auto simp: HuggingFaceProvider_generate_def Let_def or_string_def)

lemma Nvidia_empty:
  "NvidiaProvider_isAvailable k \<Longrightarrow>
   c (NvidiaProvider_request prompt options) = Inr (ChatCompletion (Some chs)) \<Longrightarrow>
   first_content chs = None \<or> first_content chs = Some [] \<Longrightarrow>
   fst (NvidiaProvider_generate k c prompt options) = Inr (js ''No response generated'')"
  by (auto simp: NvidiaProvider_generate_def Let_def or_string_def)

lemma Gemini_empty:
  "GeminiProvider_isAvailable k \<Longrightarrow>
   c (GeminiProvider_request prompt options) = Inr res \<Longrightarrow>
   response_text res = None \<or> response_text res = Some (Inr None)
     \<or> response_text res = Some (Inr (Some [])) \<Longrightarrow>
   fst (GeminiProvider_generate k c prompt options) = Inr (js ''No response generated'')"
  by (auto simp: GeminiProvider_generate_def Let_def or_string_def)

lemma OpenRouter_empty:
  "OpenRouterProvider_isAvailable k \<Longrightarrow>
   c (OpenRouterProvider_request site prompt options) = Inr (ChatCompletion chs) \<Longrightarrow>
   option_field first_content chs = None \<or> option_field first_content chs = Some [] \<Longrightarrow>
   fst (OpenRouterProvider_generate k site c prompt options)
     = Inl (Error (js ''OpenRouter error: No response content received''))"
  by (auto simp: OpenRouterProvider_generate_def Let_def or_string_def OpenRouter_catch_def
        Error_def)

lemma request_fields:
  "hf_model (HuggingFaceProvider_request prompt options)
     = or_string (option_field model options) HuggingFace_modelName"
  "hf_temperature (HuggingFaceProvider_request prompt options)
     = or_number (option_field temperature options) (Fin (7/10))"
  "hf_max_new_tokens (HuggingFaceProvider_request prompt options)
     = or_number (option_field max_tokens options) (Fin 100)"
  "chat_model (OpenRouterProvider_request site prompt options)
     = or_string (option_field model options) OpenRouter_modelName"
  "chat_temperature (OpenRouterProvider_request site prompt options)
     = nullish_number (option_field temperature options) (Fin (7/10))"
  "chat_max_tokens (OpenRouterProvider_request site prompt options)
     = nullish_number (option_field max_tokens options) (Fin 1000)"
  "chat_model (NvidiaProvider_request prompt options)
     = or_string (option_field model options) Nvidia_modelName"
  "chat_temperature (NvidiaProvider_request prompt options)
     = or_number (option_field temperature options) (Fin (7/10))"
  "chat_max_tokens (NvidiaProvider_request prompt options)
     = or_number (option_field max_tokens options) (Fin 1000)"
  "gemini_model (GeminiProvider_request prompt options)
     = or_string (option_field model options) Gemini_modelName"
  "gemini_temperature (GeminiProvider_request prompt options)
     = or_number (option_field temperature options) (Fin (7/10))"
  "gemini_maxOutputTokens (GeminiProvider_request prompt options)
     = or_number (option_field max_tokens options) (Fin 1000)"
  by (simp_all add: HuggingFaceProvider_request_def OpenRouterProvider_request_def
        NvidiaProvider_request_def GeminiProvider_request_def)


lemma generic_differs:
  "js ''OpenRouter error: '' @ m \<noteq> js ''OpenRouter authentication failed: Invalid API key''"
  "js ''OpenRouter error: '' @ m \<noteq> js ''OpenRouter rate limit exceeded''"
  by (simp_all add: js_Cons)

section \<open>Empty responses\<close>

text \<open>
  \<open>OpenRouterProvider.generate\<close> on a completion whose first choice has the empty
  string as content: the guard \<open>if (!completion.choices?.[0]?.message?.content)\<close>
  throws, the \<open>catch\<close> rethrows, and the call fails instead of returning a placeholder.
  On a content of one space the guard passes and \<open>trim()\<close> returns the empty string.
\<close>

theorem OpenRouter_empty_counterexample:
  "fst (OpenRouterProvider_generate (js ''key'') default_siteInfo (chat_replies (Some []))
          (js ''x'') None)
     = Inl (Error (js ''OpenRouter error: No response content received''))
   \<and> fst (OpenRouterProvider_generate (js ''key'') default_siteInfo (chat_replies (Some [0x20]))
          (js ''x'') None)
     = Inr []"
  by (simp add: OpenRouterProvider_generate_def OpenRouterProvider_isAvailable_def Let_def
        option_field_def first_content_def OpenRouter_catch_def Error_def trim_def
        is_whitespace_def or_string_def chat_replies_def)

text \<open>
  C4, for the adapters that have the placeholder: in \<open>HuggingFaceProvider\<close>,
  \<open>NvidiaProvider\<close> and \<open>GeminiProvider\<close> a successful backend response whose text
  is absent or empty makes \<open>generate\<close> succeed with the non-empty text
  \<open>No response generated\<close>, and whenever one of these three succeeds the text it
  returns is not empty. \<open>OpenRouterProvider\<close> has no placeholder: an absent or empty
  content makes its \<open>generate\<close> fail with
  \<open>OpenRouter error: No response content received\<close>.
\<close>

theorem empty_response_sentinel:
  "(HuggingFaceProvider_isAvailable k \<longrightarrow>
      hc (HuggingFaceProvider_request prompt options) = Inr resp \<longrightarrow>
      (generated_text resp = None \<or> generated_text resp = Some []) \<longrightarrow>
      fst (HuggingFaceProvider_generate k hc prompt options) = Inr (js ''No response generated''))
   \<and> (NvidiaProvider_isAvailable k \<longrightarrow>
      nc (NvidiaProvider_request prompt options) = Inr (ChatCompletion (Some chs)) \<longrightarrow>
      (first_content chs = None \<or> first_content chs = Some []) \<longrightarrow>
      fst (NvidiaProvider_generate k nc prompt options) = Inr (js ''No response generated''))
   \<and> (GeminiProvider_isAvailable k \<longrightarrow>
      gc (GeminiProvider_request prompt options) = Inr res \<longrightarrow>
      (response_text res = None \<or> response_text res = Some (Inr None)
         \<or> response_text res = Some (Inr (Some []))) \<longrightarrow>
      fst (GeminiProvider_generate k gc prompt options) = Inr (js ''No response generated''))
   \<and> (fst (HuggingFaceProvider_generate k hc prompt options) = Inr r \<longrightarrow> r \<noteq> [])
   \<and> (fst (NvidiaProvider_generate k nc prompt options) = Inr r \<longrightarrow> r \<noteq> [])
   \<and> (fst (GeminiProvider_generate k gc prompt options) = Inr r \<longrightarrow> r \<noteq> [])
   \<and> (OpenRouterProvider_isAvailable k \<longrightarrow>
      oc (OpenRouterProvider_request site prompt options) = Inr (ChatCompletion ochs) \<longrightarrow>
      (option_field first_content ochs = None \<or> option_field first_content ochs = Some []) \<longrightarrow>
      fst (OpenRouterProvider_generate k site oc prompt options)
        = Inl (Error (js ''OpenRouter error: No response content received'')))
   \<and> js ''No response generated'' \<noteq> []"
  using HuggingFace_empty [of k hc prompt options resp]
        Nvidia_empty [of k nc prompt options chs]
        Gemini_empty [of k gc prompt options res]
        HuggingFace_nonempty [of k hc prompt options r]
        Nvidia_nonempty [of k nc prompt options r]
        Gemini_nonempty [of k gc prompt options r]
        OpenRouter_empty [of k oc site prompt options ochs]
        sentinel_nonempty
  by blast

theorem empty_response_sentinel_witness:
  "fst (HuggingFaceProvider_generate (js ''key'') (hf_replies (Some [])) (js ''x'') None)
     = Inr (js ''No response generated'')
   \<and> fst (NvidiaProvider_generate (js ''key'') (chat_replies (Some [])) (js ''x'') None)
     = Inr (js ''No response generated'')
   \<and> fst (GeminiProvider_generate (js ''key'') (gemini_replies (Some [])) (js ''x'') None)
     = Inr (js ''No response generated'')
   \<and> fst (OpenRouterProvider_generate (js ''key'') default_siteInfo (chat_replies (Some []))
          (js ''x'') None)
     = Inl (Error (js ''OpenRouter error: No response content received''))
   \<and> js ''No response generated'' \<noteq> []"
  using empty_response_sentinel [where k = "js ''key''" and prompt = "js ''x''"
      and options = None and r = "js ''No response generated''"
      and hc = "hf_replies (Some [])" and resp = "\<lparr>generated_text = Some []\<rparr>"
      and nc = "chat_replies (Some [])" and chs = "[Choice (Some (ChatMessage (Some [])))]"
      and gc = "gemini_replies (Some [])" and res = "\<lparr>response_text = Some (Inr (Some []))\<rparr>"
      and oc = "chat_replies (Some [])" and site = default_siteInfo
      and ochs = "Some [Choice (Some (ChatMessage (Some [])))]"]
  by (simp add: HuggingFaceProvider_isAvailable_def
        OpenRouterProvider_isAvailable_def NvidiaProvider_isAvailable_def
        GeminiProvider_isAvailable_def
        first_content_def option_field_def hf_replies_def chat_replies_def gemini_replies_def)

section \<open>The availability check inside the adapters\<close>

text \<open>
  C7: in each of the four adapters, \<open>generate\<close> called while \<open>isAvailable()\<close> is false
  fails with the adapter's \<open>API key not set\<close> error and sends no request to its client,
  whatever the client would have answered.
\<close>

theorem unconfigured_adapter_fails:
  "(\<not> HuggingFaceProvider_isAvailable k \<longrightarrow>
      HuggingFaceProvider_generate k hc prompt options
        = (Inl (Error (js ''HuggingFace API key not set'')), []))
   \<and> (\<not> OpenRouterProvider_isAvailable k \<longrightarrow>
      OpenRouterProvider_generate k site oc prompt options
        = (Inl (Error (js ''OpenRouter API key not set'')), []))
   \<and> (\<not> NvidiaProvider_isAvailable k \<longrightarrow>
      NvidiaProvider_generate k nc prompt options
        = (Inl (Error (js ''NVIDIA API key not set'')), []))
   \<and> (\<not> GeminiProvider_isAvailable k \<longrightarrow>
      GeminiProvider_generate k gc prompt options
        = (Inl (Error (js ''Gemini API key not set'')), []))"
  by (simp add: HuggingFaceProvider_generate_def OpenRouterProvider_generate_def
        NvidiaProvider_generate_def GeminiProvider_generate_def)

theorem unconfigured_adapter_fails_witness:
  "HuggingFaceProvider_generate [] (hf_replies (Some (js ''hello''))) (js ''x'') None
     = (Inl (Error (js ''HuggingFace API key not set'')), [])
   \<and> OpenRouterProvider_generate [] default_siteInfo (chat_replies (Some (js ''hello'')))
         (js ''x'') None
     = (Inl (Error (js ''OpenRouter API key not set'')), [])
   \<and> OpenRouterProvider_generate (js ''invalid-key'') default_siteInfo
         (chat_replies (Some (js ''hello''))) (js ''x'') None
     = (Inl (Error (js ''OpenRouter API key not set'')), [])
   \<and> NvidiaProvider_generate [] (chat_replies (Some (js ''hello''))) (js ''x'') None
     = (Inl (Error (js ''NVIDIA API key not set'')), [])
   \<and> GeminiProvider_generate [] (gemini_replies (Some (js ''hello''))) (js ''x'') None
     = (Inl (Error (js ''Gemini API key not set'')), [])"
  using
    unconfigured_adapter_fails [where k = "[]" and prompt = "js ''x''" and options = None
      and hc = "hf_replies (Some (js ''hello''))" and oc = "chat_replies (Some (js ''hello''))"
      and nc = "chat_replies (Some (js ''hello''))" and gc = "gemini_replies (Some (js ''hello''))"
      and site = default_siteInfo]
    unconfigured_adapter_fails [where k = "js ''invalid-key''" and prompt = "js ''x''"
      and options = None and oc = "chat_replies (Some (js ''hello''))" and site = default_siteInfo]
  by (simp add: HuggingFaceProvider_isAvailable_def
        OpenRouterProvider_isAvailable_def NvidiaProvider_isAvailable_def
        GeminiProvider_isAvailable_def)

section \<open>Defaults of the per-call options\<close>

text \<open>
  A \<open>model\<close> option given as the empty string does not override: \<open>''\<close> is falsy, so
  \<open>options?.model || this.modelName\<close> is the built-in model.
\<close>

theorem empty_model_counterexample:
  "map hf_model (snd (HuggingFaceProvider_generate (js ''key'')
        (hf_replies (Some (js ''hello''))) (js ''x'')
        (Some \<lparr>model = Some [], temperature = None, max_tokens = None\<rparr>)))
     = [js ''mistralai/Mistral-Nemo-Instruct-2407'']
   \<and> map chat_model (snd (OpenRouterProvider_generate (js ''key'') default_siteInfo
        (chat_replies (Some (js ''hello''))) (js ''x'')
        (Some \<lparr>model = Some [], temperature = None, max_tokens = None\<rparr>)))
     = [js ''mistralai/mistral-7b-instruct:free'']
   \<and> map chat_model (snd (NvidiaProvider_generate (js ''key'')
        (chat_replies (Some (js ''hello''))) (js ''x'')
        (Some \<lparr>model = Some [], temperature = None, max_tokens = None\<rparr>)))
     = [js ''meta/llama-3.3-70b-instruct'']
   \<and> map gemini_model (snd (GeminiProvider_generate (js ''key'')
        (gemini_replies (Some (js ''hello''))) (js ''x'')
        (Some \<lparr>model = Some [], temperature = None, max_tokens = None\<rparr>)))
     = [js ''gemini-1.5-flash'']"
  by (simp add: HuggingFace_sent OpenRouter_sent Nvidia_sent Gemini_sent request_fields
        HuggingFaceProvider_isAvailable_def
        OpenRouterProvider_isAvailable_def NvidiaProvider_isAvailable_def
        GeminiProvider_isAvailable_def
        option_field_def or_string_def HuggingFace_modelName_def OpenRouter_modelName_def
        Nvidia_modelName_def Gemini_modelName_def)

text \<open>
  C8, with the override for a non-empty model: for configured adapters, when the
  temperature option is absent every adapter sends temperature 0.7; when the
  \<open>max_tokens\<close> option is absent \<open>HuggingFaceProvider\<close> sends 100 and the other three
  send 1000; when the model option is absent each sends its built-in model, and a model
  option that is a non-empty string is sent in its place by all four.
\<close>

theorem defaults_when_absent:
  assumes "HuggingFaceProvider_isAvailable hk" and "OpenRouterProvider_isAvailable ok"
    and "NvidiaProvider_isAvailable nk" and "GeminiProvider_isAvailable gk"
  shows "(option_field temperature options = None \<longrightarrow>
            map hf_temperature (snd (HuggingFaceProvider_generate hk hc prompt options)) = [Fin (7/10)]
          \<and> map chat_temperature (snd (OpenRouterProvider_generate ok site oc prompt options)) = [Fin (7/10)]
          \<and> map chat_temperature (snd (NvidiaProvider_generate nk nc prompt options)) = [Fin (7/10)]
          \<and> map gemini_temperature (snd (GeminiProvider_generate gk gc prompt options)) = [Fin (7/10)])
       \<and> (option_field max_tokens options = None \<longrightarrow>
            map hf_max_new_tokens (snd (HuggingFaceProvider_generate hk hc prompt options)) = [Fin 100]
          \<and> map chat_max_tokens (snd (OpenRouterProvider_generate ok site oc prompt options)) = [Fin 1000]
          \<and> map chat_max_tokens (snd (NvidiaProvider_generate nk nc prompt options)) = [Fin 1000]
          \<and> map gemini_maxOutputTokens (snd (GeminiProvider_generate gk gc prompt options)) = [Fin 1000])
       \<and> (option_field model options = None \<longrightarrow>
            map hf_model (snd (HuggingFaceProvider_generate hk hc prompt options))
              = [js ''mistralai/Mistral-Nemo-Instruct-2407'']
          \<and> map chat_model (snd (OpenRouterProvider_generate ok site oc prompt options))
              = [js ''mistralai/mistral-7b-instruct:free'']
          \<and> map chat_model (snd (NvidiaProvider_generate nk nc prompt options))
              = [js ''meta/llama-3.3-70b-instruct'']
          \<and> map gemini_model (snd (GeminiProvider_generate gk gc prompt options))
              = [js ''gemini-1.5-flash''])
       \<and> (option_field model options = Some m \<longrightarrow> m \<noteq> [] \<longrightarrow>
            map hf_model (snd (HuggingFaceProvider_generate hk hc prompt options)) = [m]
          \<and> map chat_model (snd (OpenRouterProvider_generate ok site oc prompt options)) = [m]
          \<and> map chat_model (snd (NvidiaProvider_generate nk nc prompt options)) = [m]
          \<and> map gemini_model (snd (GeminiProvider_generate gk gc prompt options)) = [m])"
  using assms
  by (simp add: HuggingFace_sent OpenRouter_sent Nvidia_sent Gemini_sent 
        request_fields or_string_def or_number_def nullish_number_def
        HuggingFace_modelName_def OpenRouter_modelName_def Nvidia_modelName_def
        Gemini_modelName_def)

theorem defaults_when_absent_witness:
  "map hf_temperature (snd (HuggingFaceProvider_generate (js ''key'')
        (hf_replies (Some (js ''hello''))) (js ''x'') None)) = [Fin (7/10)]
   \<and> map hf_max_new_tokens (snd (HuggingFaceProvider_generate (js ''key'')
        (hf_replies (Some (js ''hello''))) (js ''x'') None)) = [Fin 100]
   \<and> map hf_model (snd (HuggingFaceProvider_generate (js ''key'')
        (hf_replies (Some (js ''hello''))) (js ''x'') None))
      = [js ''mistralai/Mistral-Nemo-Instruct-2407'']
   \<and> map chat_max_tokens (snd (NvidiaProvider_generate (js ''key'')
        (chat_replies (Some (js ''hello''))) (js ''x'') None)) = [Fin 1000]
   \<and> map chat_model (snd (NvidiaProvider_generate (js ''key'')
        (chat_replies (Some (js ''hello''))) (js ''x'')
        (Some \<lparr>model = Some (js ''my-model''), temperature = None, max_tokens = None\<rparr>)))
      = [js ''my-model'']"
  using
    defaults_when_absent [where hk = "js ''key''" and ok = "js ''key''" and nk = "js ''key''"
      and gk = "js ''key''" and options = None and prompt = "js ''x''"
      and hc = "hf_replies (Some (js ''hello''))" and nc = "chat_replies (Some (js ''hello''))"]
    defaults_when_absent [where hk = "js ''key''" and ok = "js ''key''" and nk = "js ''key''"
      and gk = "js ''key''" and prompt = "js ''x''" and m = "js ''my-model''"
      and options = "Some \<lparr>model = Some (js ''my-model''), temperature = None, max_tokens = None\<rparr>"
      and nc = "chat_replies (Some (js ''hello''))"]
  by (simp add: option_field_def HuggingFaceProvider_isAvailable_def
        OpenRouterProvider_isAvailable_def NvidiaProvider_isAvailable_def
        GeminiProvider_isAvailable_def)

text \<open>
  C10: for configured adapters, an explicit temperature of 0 is replaced by 0.7 in
  \<open>HuggingFaceProvider\<close>, \<open>NvidiaProvider\<close> and \<open>GeminiProvider\<close> (they use
  \<open>||\<close>) and an explicit \<open>max_tokens\<close> of 0 by 100, 1000 and 1000; only
  \<open>OpenRouterProvider\<close> (which uses \<open>??\<close>) sends the 0 in both cases.
\<close>

theorem explicit_zero:
  assumes "HuggingFaceProvider_isAvailable hk" and "OpenRouterProvider_isAvailable ok"
    and "NvidiaProvider_isAvailable nk" and "GeminiProvider_isAvailable gk"
  shows "(option_field temperature options = Some (Fin 0) \<longrightarrow>
            map hf_temperature (snd (HuggingFaceProvider_generate hk hc prompt options)) = [Fin (7/10)]
          \<and> map chat_temperature (snd (NvidiaProvider_generate nk nc prompt options)) = [Fin (7/10)]
          \<and> map gemini_temperature (snd (GeminiProvider_generate gk gc prompt options)) = [Fin (7/10)]
          \<and> map chat_temperature (snd (OpenRouterProvider_generate ok site oc prompt options)) = [Fin 0])
       \<and> (option_field max_tokens options = Some (Fin 0) \<longrightarrow>
            map hf_max_new_tokens (snd (HuggingFaceProvider_generate hk hc prompt options)) = [Fin 100]
          \<and> map chat_max_tokens (snd (NvidiaProvider_generate nk nc prompt options)) = [Fin 1000]
          \<and> map gemini_maxOutputTokens (snd (GeminiProvider_generate gk gc prompt options)) = [Fin 1000]
          \<and> map chat_max_tokens (snd (OpenRouterProvider_generate ok site oc prompt options)) = [Fin 0])"
  using assms
  by (simp add: HuggingFace_sent OpenRouter_sent Nvidia_sent Gemini_sent 
        request_fields or_number_def nullish_number_def)

theorem explicit_zero_witness:
  "map hf_temperature (snd (HuggingFaceProvider_generate (js ''key'')
        (hf_replies (Some (js ''hello''))) (js ''x'')
        (Some \<lparr>model = None, temperature = Some (Fin 0), max_tokens = Some (Fin 0)\<rparr>)))
     = [Fin (7/10)]
   \<and> map hf_max_new_tokens (snd (HuggingFaceProvider_generate (js ''key'')
        (hf_replies (Some (js ''hello''))) (js ''x'')
        (Some \<lparr>model = None, temperature = Some (Fin 0), max_tokens = Some (Fin 0)\<rparr>)))
     = [Fin 100]
   \<and> map chat_temperature (snd (OpenRouterProvider_generate (js ''key'') default_siteInfo
        (chat_replies (Some (js ''hello''))) (js ''x'')
        (Some \<lparr>model = None, temperature = Some (Fin 0), max_tokens = Some (Fin 0)\<rparr>)))
     = [Fin 0]
   \<and> map chat_max_tokens (snd (OpenRouterProvider_generate (js ''key'') default_siteInfo
        (chat_replies (Some (js ''hello''))) (js ''x'')
        (Some \<lparr>model = None, temperature = Some (Fin 0), max_tokens = Some (Fin 0)\<rparr>)))
     = [Fin 0]"
  using
    explicit_zero [where hk = "js ''key''" and ok = "js ''key''" and nk = "js ''key''"
      and gk = "js ''key''" and prompt = "js ''x''"
      and options = "Some \<lparr>model = None, temperature = Some (Fin 0), max_tokens = Some (Fin 0)\<rparr>"
      and hc = "hf_replies (Some (js ''hello''))" and oc = "chat_replies (Some (js ''hello''))"
      and site = default_siteInfo]
  by (simp add: option_field_def HuggingFaceProvider_isAvailable_def
        OpenRouterProvider_isAvailable_def NvidiaProvider_isAvailable_def
        GeminiProvider_isAvailable_def)

section \<open>Authentication and rate-limit failures of OpenRouterProvider\<close>

text \<open>
  The \<open>catch\<close> of \<open>OpenRouterProvider.generate\<close> takes the HTTP status from
  \<open>error.response?.status\<close>: for a configured adapter whose client call is rejected
  with a value \<open>e\<close>, a \<open>response.status\<close> of 401 gives
  \<open>OpenRouter authentication failed: Invalid API key\<close>, one of 429 gives
  \<open>OpenRouter rate limit exceeded\<close>, and anything else the generic
  \<open>OpenRouter error: ...\<close>; the three errors differ from each other.
\<close>

lemma OpenRouter_catch_by_response_status:
  assumes "OpenRouterProvider_isAvailable k"
    and "oc (OpenRouterProvider_request site prompt options) = Inl e"
  shows "(response_status e = Some (Fin 401) \<longrightarrow>
            fst (OpenRouterProvider_generate k site oc prompt options)
              = Inl (Error (js ''OpenRouter authentication failed: Invalid API key'')))
       \<and> (response_status e = Some (Fin 429) \<longrightarrow>
            fst (OpenRouterProvider_generate k site oc prompt options)
              = Inl (Error (js ''OpenRouter rate limit exceeded'')))
       \<and> (response_status e \<noteq> Some (Fin 401) \<longrightarrow> response_status e \<noteq> Some (Fin 429) \<longrightarrow>
            fst (OpenRouterProvider_generate k site oc prompt options)
              = Inl (Error (js ''OpenRouter error: '' @ or_string (message e) (js ''Unknown error''))))
       \<and> Error (js ''OpenRouter error: '' @ m)
            \<noteq> Error (js ''OpenRouter authentication failed: Invalid API key'')
       \<and> Error (js ''OpenRouter error: '' @ m) \<noteq> Error (js ''OpenRouter rate limit exceeded'')
       \<and> Error (js ''OpenRouter authentication failed: Invalid API key'')
            \<noteq> Error (js ''OpenRouter rate limit exceeded'')"
  using assms generic_differs [of m]
  by (simp add: OpenRouterProvider_generate_def OpenRouter_catch_def Let_def Error_def)

text \<open>
  C9 does not hold for the value the adapter's client rejects with. On a 401 and on a
  429 of the backend that value has the HTTP status in \<open>status\<close> and no
  \<open>response\<close>, so \<open>error.response?.status\<close> is \<open>undefined\<close>, neither special
  case is taken, and \<open>generate\<close> fails with the generic message in both cases, not
  with the authentication or the rate-limit message.
\<close>

theorem OpenRouter_api_error_generic:
  "status (api_error ''401 Incorrect API key provided'' 401) = Some (Fin 401)
   \<and> fst (OpenRouterProvider_generate (js ''key'') default_siteInfo
          (chat_rejects (api_error ''401 Incorrect API key provided'' 401)) (js ''x'') None)
     = Inl (Error (js ''OpenRouter error: 401 Incorrect API key provided''))
   \<and> fst (OpenRouterProvider_generate (js ''key'') default_siteInfo
          (chat_rejects (api_error ''401 Incorrect API key provided'' 401)) (js ''x'') None)
     \<noteq> Inl (Error (js ''OpenRouter authentication failed: Invalid API key''))
   \<and> status (api_error ''429 Rate limit exceeded'' 429) = Some (Fin 429)
   \<and> fst (OpenRouterProvider_generate (js ''key'') default_siteInfo
          (chat_rejects (api_error ''429 Rate limit exceeded'' 429)) (js ''x'') None)
     = Inl (Error (js ''OpenRouter error: 429 Rate limit exceeded''))
   \<and> fst (OpenRouterProvider_generate (js ''key'') default_siteInfo
          (chat_rejects (api_error ''429 Rate limit exceeded'' 429)) (js ''x'') None)
     \<noteq> Inl (Error (js ''OpenRouter rate limit exceeded''))"
  by (simp add: OpenRouterProvider_generate_def OpenRouterProvider_isAvailable_def Let_def
        OpenRouter_catch_def chat_rejects_def api_error_def Error_def or_string_def)

end
